theory Spec2Isabelle
  imports Main
begin

section \<open>Python values, exceptions and strings\<close>

text \<open>
  The two modules of the repository are \<^verbatim>\<open>amara/machinelearning/timeseries/model_wrappers.py\<close>
  (the class \<^verbatim>\<open>ARIMAWrapper\<close>) and \<^verbatim>\<open>amara/visuals/user_input.py\<close> (three console
  prompts). Exceptions are values: a call that can raise returns \<open>exn + 'a\<close>, with
  \<open>Inl\<close> the exception. The type \<open>exn\<close> ranges over subclasses of Python's
  \<^verbatim>\<open>Exception\<close>, which is what \<^verbatim>\<open>except Exception\<close> catches; signals that are only
  \<^verbatim>\<open>BaseException\<close> (a keyboard interrupt) are outside the model.
\<close>

datatype exn = Exception | ValueError | EOFError | LibraryError string

text \<open>
  The values \<^verbatim>\<open>parse_order\<close> can return or be compared with: integers, strings, lists
  and tuples. In Python a list never equals a tuple and a string never equals an integer;
  the constructors keep them apart.
\<close>

datatype pyval = PyInt int | PyStr string | PyList "pyval list" | PyTuple "pyval list"

text \<open>
  Strings are byte strings here, so the string functions below are Python's restricted
  to ASCII. \<open>is_space\<close> is \<^verbatim>\<open>str.isspace\<close> on one ASCII character: the codes 9 to 13,
  28 to 31 and 32.
\<close>

definition is_space :: "char \<Rightarrow> bool" where
  "is_space c =
     (let n = (of_char c :: nat)
      in (9 \<le> n \<and> n \<le> 13) \<or> (28 \<le> n \<and> n \<le> 31) \<or> n = 32)"

definition rstrip :: "string \<Rightarrow> string" where
  "rstrip s = rev (dropWhile is_space (rev s))"

definition endswith :: "string \<Rightarrow> string \<Rightarrow> bool" where
  "endswith s suf = (length suf \<le> length s \<and> drop (length s - length suf) s = suf)"

definition lower_char :: "char \<Rightarrow> char" where
  "lower_char c =
     (let n = (of_char c :: nat)
      in if 65 \<le> n \<and> n \<le> 90 then char_of (n + 32) else c)"

definition lower :: "string \<Rightarrow> string" where
  "lower s = map lower_char s"

text \<open>\<^verbatim>\<open>str(n)\<close> for an integer: decimal digits, a minus sign for a negative number.\<close>

definition digit_char :: "nat \<Rightarrow> char" where
  "digit_char n = char_of (48 + n)"

function str_nat :: "nat \<Rightarrow> string" where
  "str_nat n = (if n < 10 then [digit_char n] else str_nat (n div 10) @ [digit_char (n mod 10)])"
  by pat_completeness auto
termination
  by (relation "measure (\<lambda>n. n)") auto

declare str_nat.simps [simp del]

definition str_int :: "int \<Rightarrow> string" where
  "str_int i = (if i < 0 then CHR ''-'' # str_nat (nat (- i)) else str_nat (nat i))"

text \<open>
  \<^verbatim>\<open>int(s)\<close> for a string, base ten: surrounding whitespace is skipped, one sign may
  lead, and the digits may be grouped by single underscores standing between two digits.
  Anything else raises \<^verbatim>\<open>ValueError\<close>, which is \<open>None\<close> here. Leading zeros are accepted.
  The whitespace that \<^verbatim>\<open>int\<close> skips around the number of an ASCII string is narrower
  than that of \<^verbatim>\<open>str.isspace\<close>: the codes 9 to 13 and 32 only, so a separator character
  (codes 28 to 31) beside the digits makes \<^verbatim>\<open>int\<close> raise.
  Not modelled: digits outside ASCII, and the limit on the number of digits that recent
  interpreters enforce.
\<close>

definition is_int_space :: "char \<Rightarrow> bool" where
  "is_int_space c = (let n = (of_char c :: nat) in (9 \<le> n \<and> n \<le> 13) \<or> n = 32)"

definition int_strip :: "string \<Rightarrow> string" where
  "int_strip s = dropWhile is_int_space (rev (dropWhile is_int_space (rev s)))"

definition is_digit :: "char \<Rightarrow> bool" where
  "is_digit c = (let n = (of_char c :: nat) in 48 \<le> n \<and> n \<le> 57)"

definition digit_val :: "char \<Rightarrow> nat" where
  "digit_val c = of_char c - 48"

fun digits_val :: "string \<Rightarrow> nat \<Rightarrow> bool \<Rightarrow> nat option" where
  "digits_val [] acc prev_digit = (if prev_digit then Some acc else None)"
| "digits_val (c # cs) acc prev_digit =
     (if is_digit c then digits_val cs (10 * acc + digit_val c) True
      else if c = CHR ''_'' \<and> prev_digit then digits_val cs acc False
      else None)"

definition py_int :: "string \<Rightarrow> int option" where
  "py_int s =
     (case int_strip s of
        [] \<Rightarrow> None
      | c # cs \<Rightarrow>
          if c = CHR ''-'' then map_option (\<lambda>n. - int n) (digits_val cs 0 False)
          else if c = CHR ''+'' then map_option int (digits_val cs 0 False)
          else map_option int (digits_val (c # cs) 0 False))"

text \<open>
  \<^verbatim>\<open>s.split(sep)\<close>: the pieces of \<open>s\<close> between the occurrences of \<open>sep\<close>, found left
  to right without overlap; an empty separator raises \<^verbatim>\<open>ValueError\<close>. \<open>cur\<close> is the
  piece being read.
\<close>

function split_from :: "string \<Rightarrow> string \<Rightarrow> string \<Rightarrow> string list" where
  "split_from sep cur [] = [cur]"
| "split_from sep cur (c # cs) =
     (if sep \<noteq> [] \<and> take (length sep) (c # cs) = sep
      then cur # split_from sep [] (drop (length sep) (c # cs))
      else split_from sep (cur @ [c]) cs)"
  by pat_completeness auto
termination
  by (relation "measure (\<lambda>(sep, cur, s). length s)") auto

definition str_split :: "string \<Rightarrow> string \<Rightarrow> exn + string list" where
  "str_split s sep = (if sep = [] then Inl ValueError else Inr (split_from sep [] s))"

text \<open>The slice \<^verbatim>\<open>s[1:-1]\<close>: the characters at positions 1 to \<open>length s - 2\<close>, none when
  the string has fewer than three characters.\<close>

definition slice_1_to_last :: "string \<Rightarrow> string" where
  "slice_1_to_last s = take (length s - 2) (drop 1 s)"

section \<open>Order strings\<close>

text \<open>
  \<^verbatim>\<open>ARIMAWrapper.parse_order\<close>:
  \<^verbatim>\<open>return order[1:-1].split(', ')\<close>
  The separator is a constant, so the split cannot raise. The result is the list
  \<^verbatim>\<open>split\<close> returns, a list of strings.
\<close>

definition parse_order :: "string \<Rightarrow> pyval" where
  "parse_order order =
     (case str_split (slice_1_to_last order) '', '' of
        Inl e \<Rightarrow> PyList []
      | Inr pieces \<Rightarrow> PyList (map PyStr pieces))"

text \<open>
  The string form of an order is Python's \<^verbatim>\<open>str\<close> of a tuple of three integers, as a
  result table written to text holds it: \<^verbatim>\<open>str((1, 0, 2)) == '(1, 0, 2)'\<close>.
\<close>

definition format_order :: "int \<times> int \<times> int \<Rightarrow> string" where
  "format_order o3 =
     (case o3 of (p, d, q) \<Rightarrow>
        ''('' @ str_int p @ '', '' @ str_int d @ '', '' @ str_int q @ '')'')"

section \<open>Console prompts\<close>

text \<open>
  The console is a pair of lists: the lines still to be read from standard input, and the
  chunks of text written to standard output so far. \<^verbatim>\<open>print(s)\<close> writes \<open>s\<close> and a
  newline; \<^verbatim>\<open>input(p)\<close> writes \<open>p\<close> and reads one line, raising \<^verbatim>\<open>EOFError\<close> when no
  line is left. In all three prompts the \<^verbatim>\<open>input\<close> call stands outside the
  \<^verbatim>\<open>try\<close> block, so the \<^verbatim>\<open>EOFError\<close> reaches the caller. Each prompt returns its
  result or exception, the lines left unread, and the output.
\<close>

type_synonym 'a io_result = "(exn + 'a) \<times> string list \<times> string list"

definition newline :: string where
  "newline = [CHR 0x0A]"

definition tab :: string where
  "tab = [CHR 0x09]"

definition dquote :: string where
  "dquote = [CHR 0x22]"

definition print_line :: "string \<Rightarrow> string" where
  "print_line s = s @ newline"

text \<open>\<^verbatim>\<open>'\t' * indent\<close>: no tab at all for a negative count.\<close>

definition make_indent :: "int \<Rightarrow> string" where
  "make_indent indent = concat (replicate (nat indent) tab)"

subsection \<open>Multiple choice\<close>

record OptionsList =
  ol_prompt :: string
  ol_options :: "string list"
  ol_indent :: string

definition OptionsList_init :: "string \<Rightarrow> string list \<Rightarrow> int \<Rightarrow> OptionsList" where
  "OptionsList_init prompt options indent =
     \<lparr>ol_prompt = prompt, ol_options = options, ol_indent = make_indent indent\<rparr>"

text \<open>What one round of the loop writes before it reads: the question, one numbered line
  for each option, and the \<^verbatim>\<open>>>>\<close> of the \<^verbatim>\<open>input\<close> call.\<close>

definition ol_question :: "OptionsList \<Rightarrow> string list" where
  "ol_question self =
     print_line (ol_indent self @ ol_prompt self)
     # map (\<lambda>(i, option).
          print_line (ol_indent self @ tab @ ''['' @ str_int (int i + 1) @ ''] '' @ option))
        (enumerate 0 (ol_options self))
     @ [ol_indent self @ ''>>> '']"

text \<open>The message of the \<^verbatim>\<open>except\<close> branch. \<open>shown\<close> is the value of \<^verbatim>\<open>choice\<close> as the
  f-string renders it: the line as typed when \<^verbatim>\<open>int\<close> raised, the integer when the range
  check raised.\<close>

definition ol_complaint :: "OptionsList \<Rightarrow> string \<Rightarrow> string" where
  "ol_complaint self shown =
     print_line (ol_indent self @ ''Expecting a whole number between 1 and ''
       @ str_int (int (length (ol_options self))) @ '', got '' @ dquote @ shown @ dquote
       @ '' instead.'' @ newline)"

fun OptionsList_prompt :: "OptionsList \<Rightarrow> string list \<Rightarrow> string list \<Rightarrow> int io_result" where
  "OptionsList_prompt self [] out = (Inl EOFError, [], out @ ol_question self)"
| "OptionsList_prompt self (line # rest) out =
     (case py_int line of
        None \<Rightarrow>
          OptionsList_prompt self rest (out @ ol_question self @ [ol_complaint self line])
      | Some choice \<Rightarrow>
          if choice < 1 \<or> choice > int (length (ol_options self))
          then OptionsList_prompt self rest
                 (out @ ol_question self @ [ol_complaint self (str_int choice)])
          else (Inr choice, rest, out @ ol_question self))"

subsection \<open>Yes or no\<close>

record YesNoPrompt =
  yn_prompt :: string
  yn_indent :: string

definition YesNoPrompt_init :: "string \<Rightarrow> int \<Rightarrow> YesNoPrompt" where
  "YesNoPrompt_init prompt indent =
     \<lparr>yn_prompt =
        (if \<not> endswith (rstrip prompt) ''(y/n):'' then prompt @ ''(y/n): '' else prompt),
      yn_indent = make_indent indent\<rparr>"

definition yn_complaint :: "YesNoPrompt \<Rightarrow> string \<Rightarrow> string" where
  "yn_complaint self choice =
     print_line (yn_indent self @ ''Expecting '' @ dquote @ ''y'' @ dquote @ '' for yes or ''
       @ dquote @ ''n'' @ dquote @ '' for no, got '' @ dquote @ choice @ dquote
       @ '' instead.'' @ newline)"

fun YesNoPrompt_prompt :: "YesNoPrompt \<Rightarrow> string list \<Rightarrow> string list \<Rightarrow> bool io_result" where
  "YesNoPrompt_prompt self [] out = (Inl EOFError, [], out @ [yn_indent self @ yn_prompt self])"
| "YesNoPrompt_prompt self (line # rest) out =
     (if lower line = ''y'' \<or> lower line = ''n''
      then (Inr (lower line = ''y''), rest, out @ [yn_indent self @ yn_prompt self])
      else YesNoPrompt_prompt self rest
             (out @ [yn_indent self @ yn_prompt self, yn_complaint self (lower line)]))"

subsection \<open>Bounded integer list\<close>








section \<open>The ARIMA wrapper\<close>

type_synonym order = "int \<times> int \<times> int"

text \<open>
  The statistics library is opaque: the model takes its operations as a record of
  functions, each of which can raise. \<open>'v\<close> is the type of the values of a series (a
  series is the list of its values, in index order), \<open>'x\<close> the type of a frame of exogenous
  columns, \<open>'u\<close> an unfitted model and \<open>'m\<close> a fitted one. \<open>ARIMA\<close> is the constructor
  called with the training series, the exogenous frame and the order (the frequency and
  the two enforcement flags are constants of the source); \<open>fit\<close> is \<^verbatim>\<open>model.fit\<close> with
  the source's constant method; \<open>predict\<close> is \<^verbatim>\<open>model_fit.predict()\<close>; \<open>get_forecast\<close> is
  \<^verbatim>\<open>model_fit.get_forecast(steps, exog=...)\<close>. The operations are functions: the same
  call gives the same result. Concatenating two series appends their values.
\<close>

record 'v forecast =
  predicted_mean :: "'v list"

record ('v, 'x, 'u, 'm) statsmodels =
  ARIMA :: "'v list \<Rightarrow> 'x \<Rightarrow> order \<Rightarrow> exn + 'u"
  fit :: "'u \<Rightarrow> exn + 'm"
  predict :: "'m \<Rightarrow> exn + 'v list"
  get_forecast :: "'m \<Rightarrow> nat \<Rightarrow> 'x \<Rightarrow> exn + 'v forecast"

text \<open>
  The fields \<^verbatim>\<open>__init__\<close> leaves in the wrapper: the target column of the training
  frame, its other columns, the target column of the forecast frame when it has one, its
  other columns, and the number of rows of the forecast frame.
\<close>

record ('v, 'x) ARIMAWrapper =
  train_target :: "'v list"
  train_exog :: 'x
  forecast_target :: "'v list option"
  forecast_exog :: 'x
  forecast_length :: nat

text \<open>A metric function has a name (\<^verbatim>\<open>__name__\<close>) and maps the true and the predicted
  values to a score, or raises.\<close>

record ('v, 's) metric =
  metric_name :: string
  metric_fn :: "'v list \<Rightarrow> 'v list \<Rightarrow> exn + 's"

subsection \<open>One candidate\<close>

text \<open>
  The first half of the \<^verbatim>\<open>try\<close> block: build the model, fit it, predict in sample,
  forecast out of sample, concatenate. The result is the fitted model, the in-sample
  prediction and the full prediction.
\<close>

definition candidate_predictions ::
    "('v, 'x, 'u, 'm) statsmodels \<Rightarrow> ('v, 'x) ARIMAWrapper \<Rightarrow> order
       \<Rightarrow> exn + ('m \<times> 'v list \<times> 'v list)" where
  "candidate_predictions lib self pdq =
     (case ARIMA lib (train_target self) (train_exog self) pdq of
        Inl e \<Rightarrow> Inl e
      | Inr model \<Rightarrow>
          (case fit lib model of
             Inl e \<Rightarrow> Inl e
           | Inr model_fit \<Rightarrow>
               (case predict lib model_fit of
                  Inl e \<Rightarrow> Inl e
                | Inr insample_pred \<Rightarrow>
                    (case get_forecast lib model_fit (forecast_length self) (forecast_exog self) of
                       Inl e \<Rightarrow> Inl e
                     | Inr outsample_fc \<Rightarrow>
                         Inr (model_fit, insample_pred,
                              insample_pred @ predicted_mean outsample_fc)))))"

text \<open>
  \<^verbatim>\<open>full_pred.apply(lambda x: True if x < bounds[0] or x > bounds[1] else False).any()\<close>.
  Only the comparison \<open><\<close> of the values is used, so the type of values is any type
  with an order relation.
\<close>

definition out_of_bounds :: "('v::ord) \<times> 'v \<Rightarrow> 'v list \<Rightarrow> bool" where
  "out_of_bounds bounds full_pred =
     list_ex (\<lambda>x. x < fst bounds \<or> x > snd bounds) full_pred"

text \<open>The loop over the metrics; the first one that raises ends it.\<close>

fun run_metrics :: "('v, 's) metric list \<Rightarrow> 'v list \<Rightarrow> 'v list \<Rightarrow> exn + 's list" where
  "run_metrics [] y_true y_pred = Inr []"
| "run_metrics (m # ms) y_true y_pred =
     (case metric_fn m y_true y_pred of
        Inl e \<Rightarrow> Inl e
      | Inr score \<Rightarrow>
          (case run_metrics ms y_true y_pred of
             Inl e \<Rightarrow> Inl e
           | Inr scores \<Rightarrow> Inr (score # scores)))"

text \<open>
  Everything in the \<^verbatim>\<open>try\<close> block that can raise: the predictions, the bounds check
  with its \<^verbatim>\<open>raise Exception\<close>, and the metrics. \<open>Inr\<close> carries the fitted model and the
  scores of the row.
\<close>

definition attempt ::
    "('v::ord, 'x, 'u, 'm) statsmodels \<Rightarrow> ('v, 'x) ARIMAWrapper \<Rightarrow> ('v, 's) metric list
       \<Rightarrow> ('v \<times> 'v) option \<Rightarrow> order \<Rightarrow> exn + ('m \<times> 's list)" where
  "attempt lib self metrics bounds pdq =
     (case candidate_predictions lib self pdq of
        Inl e \<Rightarrow> Inl e
      | Inr (model_fit, insample_pred, full_pred) \<Rightarrow>
          if (case bounds of None \<Rightarrow> False | Some b \<Rightarrow> out_of_bounds b full_pred)
          then Inl Exception
          else
            (case run_metrics metrics (train_target self) insample_pred of
               Inl e \<Rightarrow> Inl e
             | Inr scores \<Rightarrow> Inr (model_fit, scores)))"

subsection \<open>The search\<close>

text \<open>
  Modelled from the spec: \<^verbatim>\<open>SingleProgressBar\<close> of \<^verbatim>\<open>amara.visuals.progress\<close> is not
  among the source files. The spec describes it as a console progress indicator, advanced
  once per grid combination: a total and a count of the updates made.
\<close>

record SingleProgressBar =
  bar_total :: nat
  bar_done :: nat

definition bar_update :: "SingleProgressBar \<Rightarrow> SingleProgressBar" where
  "bar_update b = b\<lparr>bar_done := bar_done b + 1\<rparr>"

text \<open>The local variables of \<^verbatim>\<open>exhaustive_search\<close> that the loop changes. A row of
  \<^verbatim>\<open>orders\<close> is the order followed by one score for each metric.\<close>

record ('m, 's) search_state =
  passes :: nat
  failures :: nat
  orders :: "(order \<times> 's list) list"
  models :: "order \<rightharpoonup> 'm"
  tracker :: SingleProgressBar

text \<open>
  The body of the innermost loop. When the \<^verbatim>\<open>try\<close> block raises, the handler counts a
  failure; the three statements that end the block (the store into \<^verbatim>\<open>models\<close>, the
  append to \<^verbatim>\<open>orders\<close>, the count of a pass) run only when nothing has raised. The
  tracker is updated after the \<^verbatim>\<open>try\<close> statement either way.
\<close>

definition search_step ::
    "('v::ord, 'x, 'u, 'm) statsmodels \<Rightarrow> ('v, 'x) ARIMAWrapper \<Rightarrow> ('v, 's) metric list
       \<Rightarrow> ('v \<times> 'v) option \<Rightarrow> bool \<Rightarrow> order \<Rightarrow> ('m, 's) search_state
       \<Rightarrow> ('m, 's) search_state" where
  "search_step lib self metrics bounds return_models pdq st =
     (case attempt lib self metrics bounds pdq of
        Inl e \<Rightarrow>
          st\<lparr>failures := failures st + 1, tracker := bar_update (tracker st)\<rparr>
      | Inr (model_fit, scores) \<Rightarrow>
          st\<lparr>models := (if return_models then (models st)(pdq \<mapsto> model_fit) else models st),
             orders := orders st @ [(pdq, scores)],
             passes := passes st + 1,
             tracker := bar_update (tracker st)\<rparr>)"

text \<open>The three nested \<^verbatim>\<open>for\<close> loops.\<close>

definition search_loop ::
    "('v::ord, 'x, 'u, 'm) statsmodels \<Rightarrow> ('v, 'x) ARIMAWrapper \<Rightarrow> ('v, 's) metric list
       \<Rightarrow> ('v \<times> 'v) option \<Rightarrow> bool \<Rightarrow> int list \<Rightarrow> int list \<Rightarrow> int list
       \<Rightarrow> ('m, 's) search_state \<Rightarrow> ('m, 's) search_state" where
  "search_loop lib self metrics bounds return_models p_values d_values q_values st =
     fold (\<lambda>p. fold (\<lambda>d. fold (\<lambda>q.
         search_step lib self metrics bounds return_models (p, d, q)) q_values) d_values)
       p_values st"

text \<open>
  \<^verbatim>\<open>pd.DataFrame(orders).rename(columns=...)\<close>: the rows in the order of the list; the
  columns, when there is a row, are named \<^verbatim>\<open>Order\<close> and after the metrics.
\<close>

record 's result_table =
  columns :: "string list"
  rows :: "(order \<times> 's list) list"

definition make_table :: "(order \<times> 's list) list \<Rightarrow> ('v, 's) metric list \<Rightarrow> 's result_table" where
  "make_table rs metrics =
     \<lparr>columns = (if rs = [] then [] else ''Order'' # map metric_name metrics), rows = rs\<rparr>"

text \<open>
  What a call of \<^verbatim>\<open>exhaustive_search\<close> leaves: the two counts of the status line it
  prints (the elapsed time on that line is not modelled), the progress bar, and the value
  it returns, which is the table, with the dictionary of models when \<^verbatim>\<open>return_models\<close>
  is set.
\<close>

record ('m, 's) search_result =
  printed_passes :: nat
  printed_failures :: nat
  final_tracker :: SingleProgressBar
  result_table :: "'s result_table"
  result_models :: "(order \<rightharpoonup> 'm) option"

definition exhaustive_search ::
    "('v::ord, 'x, 'u, 'm) statsmodels \<Rightarrow> ('v, 'x) ARIMAWrapper \<Rightarrow> int list \<Rightarrow> int list
       \<Rightarrow> int list \<Rightarrow> ('v, 's) metric list \<Rightarrow> ('v \<times> 'v) option \<Rightarrow> bool
       \<Rightarrow> ('m, 's) search_result" where
  "exhaustive_search lib self p_values d_values q_values metrics bounds return_models =
     (let steps_count = length p_values * length d_values * length q_values;
          st = search_loop lib self metrics bounds return_models p_values d_values q_values
                 \<lparr>passes = 0, failures = 0, orders = [], models = Map.empty,
                  tracker = \<lparr>bar_total = steps_count, bar_done = 0\<rparr>\<rparr>
      in \<lparr>printed_passes = passes st,
          printed_failures = failures st,
          final_tracker = tracker st,
          result_table = make_table (orders st) metrics,
          result_models = (if return_models then Some (models st) else None)\<rparr>)"

subsection \<open>Forecasts and reconstruction\<close>

text \<open>What \<^verbatim>\<open>forecast_with\<close> can return: a series, the forecast object of the library,
  or \<^verbatim>\<open>None\<close>.\<close>

datatype 'v forecast_value = Series "'v list" | ForecastResults "'v forecast" | NoneValue

text \<open>The three predictions are computed first, then the selector is compared.\<close>

definition forecast_with ::
    "('v, 'x, 'u, 'm) statsmodels \<Rightarrow> ('v, 'x) ARIMAWrapper \<Rightarrow> 'm \<Rightarrow> string
       \<Rightarrow> exn + 'v forecast_value" where
  "forecast_with lib self model_fit forecast_sel =
     (case predict lib model_fit of
        Inl e \<Rightarrow> Inl e
      | Inr insample_pred \<Rightarrow>
          (case get_forecast lib model_fit (forecast_length self) (forecast_exog self) of
             Inl e \<Rightarrow> Inl e
           | Inr outsample_fc \<Rightarrow>
               (let full_pred = insample_pred @ predicted_mean outsample_fc
                in if forecast_sel = ''insample'' then Inr (Series insample_pred)
                   else if forecast_sel = ''outsample'' then Inr (ForecastResults outsample_fc)
                   else if forecast_sel = ''full'' then Inr (Series full_pred)
                   else Inr NoneValue)))"

datatype ('u, 'm) arima_model = Unfitted 'u | Fitted 'm

definition reconstruct ::
    "('v, 'x, 'u, 'm) statsmodels \<Rightarrow> ('v, 'x) ARIMAWrapper \<Rightarrow> order \<Rightarrow> bool
       \<Rightarrow> exn + ('u, 'm) arima_model" where
  "reconstruct lib self pdq do_fit =
     (case ARIMA lib (train_target self) (train_exog self) pdq of
        Inl e \<Rightarrow> Inl e
      | Inr model \<Rightarrow>
          if do_fit
          then (case fit lib model of Inl e \<Rightarrow> Inl e | Inr model_fit \<Rightarrow> Inr (Fitted model_fit))
          else Inr (Unfitted model))"

subsection \<open>The grid, as a list\<close>

text \<open>The combinations in the order the three loops visit them, and the rows that the
  passing ones among a list of combinations contribute.\<close>

definition grid :: "int list \<Rightarrow> int list \<Rightarrow> int list \<Rightarrow> order list" where
  "grid p_values d_values q_values =
     concat (map (\<lambda>p. concat (map (\<lambda>d. map (\<lambda>q. (p, d, q)) q_values) d_values)) p_values)"

definition candidate_passes ::
    "('v::ord, 'x, 'u, 'm) statsmodels \<Rightarrow> ('v, 'x) ARIMAWrapper \<Rightarrow> ('v, 's) metric list
       \<Rightarrow> ('v \<times> 'v) option \<Rightarrow> order \<Rightarrow> bool" where
  "candidate_passes lib self metrics bounds pdq =
     (case attempt lib self metrics bounds pdq of Inl e \<Rightarrow> False | Inr r \<Rightarrow> True)"

definition passed_rows ::
    "('v::ord, 'x, 'u, 'm) statsmodels \<Rightarrow> ('v, 'x) ARIMAWrapper \<Rightarrow> ('v, 's) metric list
       \<Rightarrow> ('v \<times> 'v) option \<Rightarrow> order list \<Rightarrow> (order \<times> 's list) list" where
  "passed_rows lib self metrics bounds cs =
     List.map_filter
       (\<lambda>pdq. case attempt lib self metrics bounds pdq of
                 Inl e \<Rightarrow> None
               | Inr (model_fit, scores) \<Rightarrow> Some (pdq, scores))
       cs"

section \<open>A small library instance\<close>

text \<open>
  A stand-in for the statistics library, small enough to evaluate, used to instantiate the
  theorems below. Values are integers, an exogenous frame is the list of its rows, and a
  model is its order, its training series and the number of its exogenous columns. The
  constructor refuses a negative order, fitting refuses more than one differencing, the
  in-sample prediction shifts the training series by \<open>p\<close>, and the forecast, which
  refuses exogenous rows of the wrong width, predicts \<open>50 * q\<close> at each step.
\<close>

type_synonym demo_model = "order \<times> int list \<times> nat"

definition frame_width :: "int list list \<Rightarrow> nat" where
  "frame_width exog = (case exog of [] \<Rightarrow> 0 | r # rest \<Rightarrow> length r)"

definition demo_ARIMA :: "int list \<Rightarrow> int list list \<Rightarrow> order \<Rightarrow> exn + demo_model" where
  "demo_ARIMA y exog pdq =
     (case pdq of (p, d, q) \<Rightarrow>
        if p < 0 \<or> d < 0 \<or> q < 0 then Inl ValueError else Inr (pdq, y, frame_width exog))"

definition demo_fit :: "demo_model \<Rightarrow> exn + demo_model" where
  "demo_fit u =
     (case u of ((p, d, q), y, k) \<Rightarrow>
        if d > 1 then Inl (LibraryError ''non-stationary'') else Inr u)"

definition demo_predict :: "demo_model \<Rightarrow> exn + int list" where
  "demo_predict m = (case m of ((p, d, q), y, k) \<Rightarrow> Inr (map (\<lambda>v. v + p) y))"

definition demo_get_forecast :: "demo_model \<Rightarrow> nat \<Rightarrow> int list list \<Rightarrow> exn + int forecast" where
  "demo_get_forecast m n exog =
     (case m of ((p, d, q), y, k) \<Rightarrow>
        if frame_width exog \<noteq> k then Inl ValueError
        else Inr \<lparr>predicted_mean = replicate n (50 * q)\<rparr>)"

definition demo_lib :: "(int, int list list, demo_model, demo_model) statsmodels" where
  "demo_lib =
     \<lparr>ARIMA = demo_ARIMA, fit = demo_fit, predict = demo_predict,
      get_forecast = demo_get_forecast\<rparr>"

definition demo_wrapper :: "(int, int list list) ARIMAWrapper" where
  "demo_wrapper =
     \<lparr>train_target = [10, 20], train_exog = [[1], [2]], forecast_target = None,
      forecast_exog = [[3]], forecast_length = 1\<rparr>"

text \<open>A wrapper whose forecast frame has one exogenous column more than its training
  frame.\<close>

definition mismatched_wrapper :: "(int, int list list) ARIMAWrapper" where
  "mismatched_wrapper =
     \<lparr>train_target = [10, 20], train_exog = [[1], [2]], forecast_target = None,
      forecast_exog = [[3, 4]], forecast_length = 1\<rparr>"

definition sum_abs_error :: "(int, int) metric" where
  "sum_abs_error =
     \<lparr>metric_name = ''sum_abs_error'',
      metric_fn = (\<lambda>y_true y_pred.
         if length y_true \<noteq> length y_pred then Inl ValueError
         else Inr (sum_list (map2 (\<lambda>a b. \<bar>a - b\<bar>) y_true y_pred)))\<rparr>"

definition demo_search :: "bool \<Rightarrow> (demo_model, int) search_result" where
  "demo_search return_models =
     exhaustive_search demo_lib demo_wrapper [0, 1] [0, 2] [1, 3] [sum_abs_error]
       (Some (0, 100)) return_models"

section \<open>The search as one pass over the grid\<close>

lemma fold_concat: "fold f (concat xss) = fold (fold f) xss"
  by (induction xss) simp_all

text \<open>The three nested loops visit the combinations of \<open>grid\<close>, in its order.\<close>

lemma search_loop_grid:
  "search_loop lib self metrics bounds rm P D Q st =
     fold (search_step lib self metrics bounds rm) (grid P D Q) st"
  by (simp add: search_loop_def grid_def fold_concat fold_map comp_def)

lemma length_grid: "length (grid P D Q) = length P * length D * length Q"
proof -
  have inner: "length (concat (map (\<lambda>d. map (\<lambda>q. (p, d, q)) Q) D)) = length D * length Q"
    for p :: int
    by (induction D) simp_all
  show ?thesis
    unfolding grid_def by (induction P) (simp_all add: inner add_mult_distrib)
qed

lemma set_grid: "set (grid P D Q) = {(p, d, q). p \<in> set P \<and> d \<in> set D \<and> q \<in> set Q}"
  by (auto simp: grid_def)

lemma passes_fold:
  "passes (fold (search_step lib self metrics bounds rm) cs st) =
     passes st + length (filter (candidate_passes lib self metrics bounds) cs)"
  by (induction cs arbitrary: st)
     (auto simp: search_step_def candidate_passes_def split: sum.splits)

lemma failures_fold:
  "failures (fold (search_step lib self metrics bounds rm) cs st) =
     failures st + length (filter (\<lambda>c. \<not> candidate_passes lib self metrics bounds c) cs)"
  by (induction cs arbitrary: st)
     (auto simp: search_step_def candidate_passes_def split: sum.splits)

lemma orders_fold:
  "orders (fold (search_step lib self metrics bounds rm) cs st) =
     orders st @ passed_rows lib self metrics bounds cs"
  by (induction cs arbitrary: st)
     (auto simp: search_step_def passed_rows_def split: sum.splits)

lemma tracker_fold:
  "tracker (fold (search_step lib self metrics bounds rm) cs st) =
     (tracker st)\<lparr>bar_done := bar_done (tracker st) + length cs\<rparr>"
  by (induction cs arbitrary: st)
     (auto simp: search_step_def bar_update_def split: sum.splits)

lemma models_fold:
  "models (fold (search_step lib self metrics bounds rm) cs st) c =
     (case attempt lib self metrics bounds c of
        Inl e \<Rightarrow> models st c
      | Inr (m, scores) \<Rightarrow> if rm \<and> c \<in> set cs then Some m else models st c)"
  by (induction cs arbitrary: st)
     (auto simp: search_step_def split: sum.splits)

lemma map_fst_passed_rows:
  "map fst (passed_rows lib self metrics bounds cs) =
     filter (candidate_passes lib self metrics bounds) cs"
  by (induction cs)
     (auto simp: passed_rows_def candidate_passes_def split: sum.splits)

lemma passed_rows_append:
  "passed_rows lib self metrics bounds (xs @ ys) =
     passed_rows lib self metrics bounds xs @ passed_rows lib self metrics bounds ys"
  by (simp add: passed_rows_def List.map_filter_def)

lemma passed_rows_Cons:
  "passed_rows lib self metrics bounds (c # cs) =
     (case attempt lib self metrics bounds c of
        Inl e \<Rightarrow> passed_rows lib self metrics bounds cs
      | Inr (m, scores) \<Rightarrow> (c, scores) # passed_rows lib self metrics bounds cs)"
  by (simp add: passed_rows_def split: sum.splits)

lemma rows_search:
  "rows (result_table (exhaustive_search lib self P D Q metrics bounds rm)) =
     passed_rows lib self metrics bounds (grid P D Q)"
  by (simp add: exhaustive_search_def Let_def make_table_def search_loop_grid orders_fold)

lemma printed_passes_search:
  "printed_passes (exhaustive_search lib self P D Q metrics bounds rm) =
     length (filter (candidate_passes lib self metrics bounds) (grid P D Q))"
  by (simp add: exhaustive_search_def Let_def search_loop_grid passes_fold)

lemma printed_failures_search:
  "printed_failures (exhaustive_search lib self P D Q metrics bounds rm) =
     length (filter (\<lambda>c. \<not> candidate_passes lib self metrics bounds c) (grid P D Q))"
  by (simp add: exhaustive_search_def Let_def search_loop_grid failures_fold)

text \<open>The search on the small library: eight combinations, of which two pass.\<close>

lemma demo_grid:
  "grid [0, 1] [0, 2] [1, 3] =
     [(0, 0, 1), (0, 0, 3)] @ (0, 2, 1) # [(0, 2, 3), (1, 0, 1), (1, 0, 3), (1, 2, 1), (1, 2, 3)]"
  by code_simp

lemma demo_rows:
  "rows (result_table (demo_search True)) = [((0, 0, 1), [0]), ((1, 0, 1), [2])]"
  by code_simp

lemma demo_counts:
  "printed_passes (demo_search True) = 2 \<and> printed_failures (demo_search True) = 6"
  by code_simp

section \<open>Accounting of passes and failures\<close>

text \<open>
  C1. Whatever the library does, the two counts that \<^verbatim>\<open>exhaustive_search\<close> prints add up
  to the product of the lengths of the three candidate lists. The pass count is the number
  of combinations of the grid whose \<^verbatim>\<open>try\<close> block ran through, the failure count the
  number of those where it raised, the progress bar has been advanced once for each
  combination, and one round of the loop adds one to exactly one of the two counters.
\<close>

theorem search_accounts_for_grid:
  "printed_passes (exhaustive_search lib self P D Q metrics bounds rm)
     + printed_failures (exhaustive_search lib self P D Q metrics bounds rm)
     = length P * length D * length Q
   \<and> printed_passes (exhaustive_search lib self P D Q metrics bounds rm)
       = length (filter (candidate_passes lib self metrics bounds) (grid P D Q))
   \<and> printed_failures (exhaustive_search lib self P D Q metrics bounds rm)
       = length (filter (\<lambda>c. \<not> candidate_passes lib self metrics bounds c) (grid P D Q))
   \<and> bar_done (final_tracker (exhaustive_search lib self P D Q metrics bounds rm))
       = length P * length D * length Q
   \<and> ((passes (search_step lib self metrics bounds rm c st) = passes st + 1
         \<and> failures (search_step lib self metrics bounds rm c st) = failures st)
       \<or> (passes (search_step lib self metrics bounds rm c st) = passes st
         \<and> failures (search_step lib self metrics bounds rm c st) = failures st + 1))"
proof -
  let ?r = "exhaustive_search lib self P D Q metrics bounds rm"
  let ?ok = "candidate_passes lib self metrics bounds"
  have p: "printed_passes ?r = length (filter ?ok (grid P D Q))"
    by (rule printed_passes_search)
  have f: "printed_failures ?r = length (filter (\<lambda>c. \<not> ?ok c) (grid P D Q))"
    by (rule printed_failures_search)
  have t: "bar_done (final_tracker ?r) = length P * length D * length Q"
    by (simp add: exhaustive_search_def Let_def search_loop_grid tracker_fold length_grid)
  have "printed_passes ?r + printed_failures ?r = length (grid P D Q)"
    unfolding p f by (rule sum_length_filter_compl)
  then have s: "printed_passes ?r + printed_failures ?r = length P * length D * length Q"
    by (simp add: length_grid)
  have step: "(passes (search_step lib self metrics bounds rm c st) = passes st + 1
         \<and> failures (search_step lib self metrics bounds rm c st) = failures st)
       \<or> (passes (search_step lib self metrics bounds rm c st) = passes st
         \<and> failures (search_step lib self metrics bounds rm c st) = failures st + 1)"
    by (simp add: search_step_def split: sum.splits prod.splits)
  from s p f t step show ?thesis by blast
qed

theorem search_accounts_for_grid_witness:
  "printed_passes (demo_search True) = 2 \<and> printed_failures (demo_search True) = 6
   \<and> length [0, 1 :: int] * length [0, 2 :: int] * length [1, 3 :: int] = 8
   \<and> printed_passes (demo_search True) + printed_failures (demo_search True) = 8"
  using search_accounts_for_grid [of demo_lib demo_wrapper "[0, 1]" "[0, 2]" "[1, 3]"
      "[sum_abs_error]" "Some (0, 100)" True]
    demo_counts
  by (simp add: demo_search_def)

section \<open>A candidate that raises\<close>

text \<open>Each stage of the \<^verbatim>\<open>try\<close> block that raises makes the whole attempt raise.\<close>

lemma construction_raises:
  "ARIMA lib (train_target self) (train_exog self) c = Inl e
     \<Longrightarrow> attempt lib self metrics bounds c = Inl e"
  by (simp add: attempt_def candidate_predictions_def)

lemma fit_raises:
  "ARIMA lib (train_target self) (train_exog self) c = Inr u \<Longrightarrow> fit lib u = Inl e
     \<Longrightarrow> attempt lib self metrics bounds c = Inl e"
  by (simp add: attempt_def candidate_predictions_def)

lemma predict_raises:
  "ARIMA lib (train_target self) (train_exog self) c = Inr u \<Longrightarrow> fit lib u = Inr m
     \<Longrightarrow> predict lib m = Inl e
     \<Longrightarrow> attempt lib self metrics bounds c = Inl e"
  by (simp add: attempt_def candidate_predictions_def)

lemma forecast_raises:
  "ARIMA lib (train_target self) (train_exog self) c = Inr u \<Longrightarrow> fit lib u = Inr m
     \<Longrightarrow> predict lib m = Inr ins
     \<Longrightarrow> get_forecast lib m (forecast_length self) (forecast_exog self) = Inl e
     \<Longrightarrow> attempt lib self metrics bounds c = Inl e"
  by (simp add: attempt_def candidate_predictions_def)


lemma metric_raises:
  "candidate_predictions lib self c = Inr (m, ins, full)
     \<Longrightarrow> run_metrics metrics (train_target self) ins = Inl e
     \<Longrightarrow> \<exists>e'. attempt lib self metrics bounds c = Inl e'"
  by (simp add: attempt_def)

text \<open>
  C3. Let the \<^verbatim>\<open>try\<close> block raise for the combination \<open>c\<close>, which the loops reach after
  the combinations \<open>pre\<close> and before the combinations \<open>post\<close>. Then the loops end in the
  state reached by running over \<open>pre\<close>, adding one to the failure counter (and advancing
  the progress bar) with the rows and the models left as they were, and running over all
  of \<open>post\<close>. The table holds the rows of \<open>pre\<close> and of \<open>post\<close> and none for this visit of
  \<open>c\<close>, and the failure count is one more than the failures of \<open>pre\<close> and \<open>post\<close>. The
  search returns a result in every case: \<open>exhaustive_search\<close> has no exception among its
  values.
\<close>

theorem failing_candidate_is_counted_and_skipped:
  assumes "grid P D Q = pre @ c # post"
    and "attempt lib self metrics bounds c = Inl e"
  shows "search_loop lib self metrics bounds rm P D Q st
           = fold (search_step lib self metrics bounds rm) post
               ((fold (search_step lib self metrics bounds rm) pre st)
                  \<lparr>failures := failures (fold (search_step lib self metrics bounds rm) pre st) + 1,
                   tracker :=
                     bar_update (tracker (fold (search_step lib self metrics bounds rm) pre st))\<rparr>)
     \<and> rows (result_table (exhaustive_search lib self P D Q metrics bounds rm))
         = passed_rows lib self metrics bounds pre @ passed_rows lib self metrics bounds post
     \<and> printed_failures (exhaustive_search lib self P D Q metrics bounds rm)
         = length (filter (\<lambda>c. \<not> candidate_passes lib self metrics bounds c) pre) + 1
           + length (filter (\<lambda>c. \<not> candidate_passes lib self metrics bounds c) post)
     \<and> printed_passes (exhaustive_search lib self P D Q metrics bounds rm)
         = length (filter (candidate_passes lib self metrics bounds) pre)
           + length (filter (candidate_passes lib self metrics bounds) post)"
proof -
  have no: "\<not> candidate_passes lib self metrics bounds c"
    using assms(2) by (simp add: candidate_passes_def)
  have a: "search_loop lib self metrics bounds rm P D Q st
           = fold (search_step lib self metrics bounds rm) post
               ((fold (search_step lib self metrics bounds rm) pre st)
                  \<lparr>failures := failures (fold (search_step lib self metrics bounds rm) pre st) + 1,
                   tracker :=
                     bar_update (tracker (fold (search_step lib self metrics bounds rm) pre st))\<rparr>)"
    by (simp add: search_loop_grid assms(1) search_step_def assms(2))
  have b: "rows (result_table (exhaustive_search lib self P D Q metrics bounds rm))
         = passed_rows lib self metrics bounds pre @ passed_rows lib self metrics bounds post"
    by (simp add: rows_search assms passed_rows_append passed_rows_Cons)
  have c: "printed_failures (exhaustive_search lib self P D Q metrics bounds rm)
         = length (filter (\<lambda>c. \<not> candidate_passes lib self metrics bounds c) pre) + 1
           + length (filter (\<lambda>c. \<not> candidate_passes lib self metrics bounds c) post)"
    using no by (simp add: printed_failures_search assms(1))
  have d: "printed_passes (exhaustive_search lib self P D Q metrics bounds rm)
         = length (filter (candidate_passes lib self metrics bounds) pre)
           + length (filter (candidate_passes lib self metrics bounds) post)"
    using no by (simp add: printed_passes_search assms(1))
  from a b c d show ?thesis by blast
qed

theorem failing_candidate_is_counted_and_skipped_witness:
  "grid [0, 1] [0, 2] [1, 3] =
     [(0, 0, 1), (0, 0, 3)] @ (0, 2, 1) # [(0, 2, 3), (1, 0, 1), (1, 0, 3), (1, 2, 1), (1, 2, 3)]
   \<and> attempt demo_lib demo_wrapper [sum_abs_error] (Some (0, 100)) (0, 2, 1)
       = Inl (LibraryError ''non-stationary'')
   \<and> rows (result_table (demo_search True)) = [((0, 0, 1), [0]), ((1, 0, 1), [2])]
   \<and> printed_failures (demo_search True) = 1 + 1 + 4
   \<and> printed_passes (demo_search True) = 1 + 1"
proof -
  have a: "attempt demo_lib demo_wrapper [sum_abs_error] (Some (0, 100)) (0, 2, 1)
             = Inl (LibraryError ''non-stationary'')"
    by code_simp
  have r1: "passed_rows demo_lib demo_wrapper [sum_abs_error] (Some (0, 100))
              [(0, 0, 1), (0, 0, 3)] = [((0, 0, 1), [0])]"
    by code_simp
  have r2: "passed_rows demo_lib demo_wrapper [sum_abs_error] (Some (0, 100))
              [(0, 2, 3), (1, 0, 1), (1, 0, 3), (1, 2, 1), (1, 2, 3)] = [((1, 0, 1), [2])]"
    by code_simp
  have f1: "length (filter (\<lambda>c. \<not> candidate_passes demo_lib demo_wrapper [sum_abs_error]
              (Some (0, 100)) c) [(0, 0, 1), (0, 0, 3)]) = 1"
    by code_simp
  have f2: "length (filter (\<lambda>c. \<not> candidate_passes demo_lib demo_wrapper [sum_abs_error]
              (Some (0, 100)) c) [(0, 2, 3), (1, 0, 1), (1, 0, 3), (1, 2, 1), (1, 2, 3)]) = 4"
    by code_simp
  have p1: "length (filter (candidate_passes demo_lib demo_wrapper [sum_abs_error]
              (Some (0, 100))) [(0, 0, 1), (0, 0, 3)]) = 1"
    by code_simp
  have p2: "length (filter (candidate_passes demo_lib demo_wrapper [sum_abs_error]
              (Some (0, 100))) [(0, 2, 3), (1, 0, 1), (1, 0, 3), (1, 2, 1), (1, 2, 3)]) = 1"
    by code_simp
  show ?thesis
    using failing_candidate_is_counted_and_skipped [OF demo_grid a, of True] demo_grid a
    unfolding r1 r2 f1 f2 p1 p2 demo_search_def
    by simp
qed

section \<open>The bounds check\<close>







section \<open>The rows of the table\<close>

text \<open>
  C5. The orders of the rows of the table are the passing combinations of the grid, in
  the order of the grid, which is the order in which the three loops run the loop body;
  so the three components of the order of a row come from the three candidate lists.
\<close>

theorem rows_follow_grid_order:
  "map fst (rows (result_table (exhaustive_search lib self P D Q metrics bounds rm)))
     = filter (candidate_passes lib self metrics bounds) (grid P D Q)
   \<and> (\<forall>row \<in> set (rows (result_table (exhaustive_search lib self P D Q metrics bounds rm))).
        case fst row of (p, d, q) \<Rightarrow> p \<in> set P \<and> d \<in> set D \<and> q \<in> set Q)
   \<and> search_loop lib self metrics bounds rm P D Q st
       = fold (search_step lib self metrics bounds rm) (grid P D Q) st"
proof (intro conjI ballI)
  show "search_loop lib self metrics bounds rm P D Q st
       = fold (search_step lib self metrics bounds rm) (grid P D Q) st"
    by (rule search_loop_grid)
next
  show m: "map fst (rows (result_table (exhaustive_search lib self P D Q metrics bounds rm)))
     = filter (candidate_passes lib self metrics bounds) (grid P D Q)"
    by (simp add: rows_search map_fst_passed_rows)
  fix row
  assume "row \<in> set (rows (result_table (exhaustive_search lib self P D Q metrics bounds rm)))"
  then have "fst row \<in> set (map fst (rows (result_table (exhaustive_search lib self P D Q metrics bounds rm))))"
    by simp
  then have "fst row \<in> set (grid P D Q)"
    unfolding m by simp
  then show "case fst row of (p, d, q) \<Rightarrow> p \<in> set P \<and> d \<in> set D \<and> q \<in> set Q"
    by (auto simp: set_grid)
qed

theorem rows_follow_grid_order_witness:
  "map fst (rows (result_table (demo_search False))) = [(0, 0, 1), (1, 0, 1)]
   \<and> filter (candidate_passes demo_lib demo_wrapper [sum_abs_error] (Some (0, 100)))
        (grid [0, 1] [0, 2] [1, 3]) = [(0, 0, 1), (1, 0, 1)]"
proof -
  have f: "filter (candidate_passes demo_lib demo_wrapper [sum_abs_error] (Some (0, 100)))
        (grid [0, 1] [0, 2] [1, 3]) = [(0, 0, 1), (1, 0, 1)]"
    by code_simp
  show ?thesis
    using rows_follow_grid_order [of demo_lib demo_wrapper "[0, 1]" "[0, 2]" "[1, 3]"
      "[sum_abs_error]" "Some (0, 100)" False] f
    by (simp add: demo_search_def)
qed

section \<open>The models returned\<close>

text \<open>
  C9. With \<^verbatim>\<open>return_models\<close> set, the search returns a dictionary whose keys are the
  orders of the rows of the table, which are the combinations of the grid that passed.
  Without it no dictionary is returned.
\<close>

theorem models_keys_are_table_orders:
  "(\<exists>ms. result_models (exhaustive_search lib self P D Q metrics bounds True) = Some ms
       \<and> dom ms = fst ` set (rows (result_table
                     (exhaustive_search lib self P D Q metrics bounds True)))
       \<and> dom ms = {c \<in> set (grid P D Q). candidate_passes lib self metrics bounds c})
   \<and> result_models (exhaustive_search lib self P D Q metrics bounds False) = None"
proof -
  let ?ms = "models (search_loop lib self metrics bounds True P D Q
                 \<lparr>passes = 0, failures = 0, orders = [], models = Map.empty,
                  tracker = \<lparr>bar_total = length P * length D * length Q, bar_done = 0\<rparr>\<rparr>)"
  have r: "result_models (exhaustive_search lib self P D Q metrics bounds True) = Some ?ms"
    by (simp add: exhaustive_search_def Let_def)
  have d: "dom ?ms = {c \<in> set (grid P D Q). candidate_passes lib self metrics bounds c}"
    by (auto simp: search_loop_grid models_fold candidate_passes_def dom_def split: sum.splits if_splits)
  have "fst ` set (rows (result_table (exhaustive_search lib self P D Q metrics bounds True)))
      = set (map fst (passed_rows lib self metrics bounds (grid P D Q)))"
    by (simp add: rows_search)
  also have "\<dots> = {c \<in> set (grid P D Q). candidate_passes lib self metrics bounds c}"
    unfolding map_fst_passed_rows by auto
  finally have t: "fst ` set (rows (result_table (exhaustive_search lib self P D Q metrics bounds True)))
      = {c \<in> set (grid P D Q). candidate_passes lib self metrics bounds c}" .
  have n: "result_models (exhaustive_search lib self P D Q metrics bounds False) = None"
    by (simp add: exhaustive_search_def Let_def)
  from r d t n show ?thesis by simp
qed

theorem models_keys_are_table_orders_witness:
  "(\<exists>ms. result_models (demo_search True) = Some ms \<and> dom ms = {(0, 0, 1), (1, 0, 1)})
   \<and> rows (result_table (demo_search True)) = [((0, 0, 1), [0]), ((1, 0, 1), [2])]"
  using models_keys_are_table_orders [of demo_lib demo_wrapper "[0, 1]" "[0, 2]" "[1, 3]"
      "[sum_abs_error]" "Some (0, 100)"] demo_rows
  by (auto simp: demo_search_def)

section \<open>Selecting a forecast\<close>

text \<open>
  C10. When the in-sample prediction and the out-of-sample forecast of the model both
  succeed, \<^verbatim>\<open>forecast_with\<close> returns \<^verbatim>\<open>None\<close> for every selector other than
  \<^verbatim>\<open>insample\<close>, \<^verbatim>\<open>outsample\<close> and \<^verbatim>\<open>full\<close>.
\<close>

theorem forecast_with_unknown_selector:
  assumes "predict lib model_fit = Inr insample_pred"
    and "get_forecast lib model_fit (forecast_length self) (forecast_exog self) = Inr outsample_fc"
    and "sel \<noteq> ''insample''" and "sel \<noteq> ''outsample''" and "sel \<noteq> ''full''"
  shows "forecast_with lib self model_fit sel = Inr NoneValue"
  using assms by (simp add: forecast_with_def)

theorem forecast_with_unknown_selector_witness:
  "predict demo_lib ((1, 0, 2), [10, 20], 1) = Inr [11, 21]
   \<and> get_forecast demo_lib ((1, 0, 2), [10, 20], 1) (forecast_length demo_wrapper)
        (forecast_exog demo_wrapper) = Inr \<lparr>predicted_mean = [100]\<rparr>
   \<and> ''weekly'' \<noteq> ''insample'' \<and> ''weekly'' \<noteq> ''outsample'' \<and> ''weekly'' \<noteq> ''full''
   \<and> forecast_with demo_lib demo_wrapper ((1, 0, 2), [10, 20], 1) ''weekly'' = Inr NoneValue"
proof -
  have p: "predict demo_lib ((1, 0, 2), [10, 20], 1) = Inr [11, 21]"
    by code_simp
  have g: "get_forecast demo_lib ((1, 0, 2), [10, 20], 1) (forecast_length demo_wrapper)
        (forecast_exog demo_wrapper) = Inr \<lparr>predicted_mean = [100]\<rparr>"
    by code_simp
  have s: "''weekly'' \<noteq> ''insample''" "''weekly'' \<noteq> ''outsample''" "''weekly'' \<noteq> ''full''"
    by simp_all
  from forecast_with_unknown_selector [OF p g s] p g s show ?thesis by simp
qed

text \<open>
  Without that condition the statement fails: the predictions are computed before the
  selector is looked at, so an exception of the library comes first. Here the wrapper's
  forecast frame is wider than its training frame; the model that \<^verbatim>\<open>reconstruct\<close> builds
  and fits is a fitted model, and \<^verbatim>\<open>forecast_with\<close> raises on it for the selector
  \<^verbatim>\<open>weekly\<close>.
\<close>

theorem forecast_with_raises_counterexample:
  "reconstruct demo_lib mismatched_wrapper (1, 0, 2) True = Inr (Fitted ((1, 0, 2), [10, 20], 1))
   \<and> ''weekly'' \<noteq> ''insample'' \<and> ''weekly'' \<noteq> ''outsample'' \<and> ''weekly'' \<noteq> ''full''
   \<and> forecast_with demo_lib mismatched_wrapper ((1, 0, 2), [10, 20], 1) ''weekly'' = Inl ValueError
   \<and> forecast_with demo_lib mismatched_wrapper ((1, 0, 2), [10, 20], 1) ''weekly'' \<noteq> Inr NoneValue"
  by code_simp

section \<open>Parsing an order string\<close>

lemma slice_parens: "slice_1_to_last (CHR ''('' # s @ '')'') = s"
  by (simp add: slice_1_to_last_def)

lemma split_skip:
  "CHR '','' \<notin> set a \<Longrightarrow> split_from '', '' cur (a @ rest) = split_from '', '' (cur @ a) rest"
proof (induction a arbitrary: cur)
  case Nil
  then show ?case by simp
next
  case (Cons c a)
  then have "c \<noteq> CHR '',''" by auto
  then have "split_from '', '' cur ((c # a) @ rest) = split_from '', '' (cur @ [c]) (a @ rest)"
    by auto
  with Cons show ?case by simp
qed

lemma split_sep: "split_from '', '' cur ('', '' @ rest) = cur # split_from '', '' [] rest"
  by simp

lemma split_last: "CHR '','' \<notin> set a \<Longrightarrow> split_from '', '' cur a = [cur @ a]"
  using split_skip [of a cur "[]"] by simp

lemma digit_char_not_comma: "n < 10 \<Longrightarrow> digit_char n \<noteq> CHR '',''"
proof
  assume n: "n < 10" and "digit_char n = CHR '',''"
  then have "(of_char (char_of (48 + n)) :: nat) = of_char (CHR '','')"
    by (simp add: digit_char_def)
  with n show False by simp
qed

lemma str_nat_no_comma: "CHR '','' \<notin> set (str_nat n)"
proof (induction n rule: str_nat.induct)
  case (1 n)
  show ?case
  proof (cases "n < 10")
    case True
    then show ?thesis
      using digit_char_not_comma [of n] by (subst str_nat.simps) auto
  next
    case False
    then have "n mod 10 < 10" by simp
    with False 1 show ?thesis
      using digit_char_not_comma [of "n mod 10"] by (subst str_nat.simps) auto
  qed
qed

lemma str_int_no_comma: "CHR '','' \<notin> set (str_int i)"
  by (simp add: str_int_def str_nat_no_comma)

text \<open>
  C2. \<^verbatim>\<open>parse_order\<close> applied to the string form of a triple of integers returns the list
  of the three decimal strings of its components, and so never the tuple of the three
  integers; on \<^verbatim>\<open>(1, 0, 2)\<close> it returns the list of the strings \<^verbatim>\<open>1\<close>, \<^verbatim>\<open>0\<close> and \<^verbatim>\<open>2\<close>.
\<close>

theorem parse_order_returns_strings:
  "parse_order (format_order (p, d, q)) = PyList [PyStr (str_int p), PyStr (str_int d), PyStr (str_int q)]
   \<and> parse_order (format_order (p, d, q)) \<noteq> PyTuple [PyInt p, PyInt d, PyInt q]
   \<and> format_order (1, 0, 2) = ''(1, 0, 2)''
   \<and> parse_order ''(1, 0, 2)'' = PyList [PyStr ''1'', PyStr ''0'', PyStr ''2'']"
proof -
  have f: "format_order (p, d, q) = CHR ''('' # (str_int p @ '', '' @ str_int d @ '', '' @ str_int q) @ '')''"
    by (simp add: format_order_def)
  have "split_from '', '' [] (str_int p @ '', '' @ str_int d @ '', '' @ str_int q)
      = [str_int p, str_int d, str_int q]"
    by (simp only: split_skip [OF str_int_no_comma] split_sep split_last [OF str_int_no_comma] append_Nil)
  then have a: "parse_order (format_order (p, d, q)) = PyList [PyStr (str_int p), PyStr (str_int d), PyStr (str_int q)]"
    unfolding f parse_order_def slice_parens by (simp add: str_split_def)
  have c: "format_order (1, 0, 2) = ''(1, 0, 2)''" by code_simp
  have e: "parse_order ''(1, 0, 2)'' = PyList [PyStr ''1'', PyStr ''0'', PyStr ''2'']" by code_simp
  from a c e show ?thesis by simp
qed

section \<open>The prompts\<close>

subsection \<open>Multiple choice\<close>

lemma options_prompt_first_valid:
  "fst (OptionsList_prompt self ins out) =
     (case List.map_filter
        (\<lambda>l. case py_int l of
               None \<Rightarrow> None
             | Some k \<Rightarrow> if 1 \<le> k \<and> k \<le> int (length (ol_options self)) then Some k else None)
        ins of
        [] \<Rightarrow> Inl EOFError
      | k # ks \<Rightarrow> Inr k)"
  by (induction ins arbitrary: out) (auto split: option.splits)

lemma py_int_0: "py_int ''0'' = Some 0"
  by code_simp
lemma py_int_5: "py_int ''5'' = Some 5"
  by code_simp
lemma py_int_2: "py_int ''2'' = Some 2"
  by code_simp
text \<open>Blanks around the number are skipped; a separator character is not, and neither
  is a blank after the sign.\<close>

lemma py_int_blanks: "py_int '' +1_000 '' = Some 1000"
  by code_simp

lemma py_int_separator_before: "py_int [CHR 0x1F, CHR ''3''] = None"
  by code_simp

lemma py_int_separator_after: "py_int [CHR ''3'', CHR 0x1C] = None"
  by code_simp

lemma py_int_blank_after_sign: "py_int ''- 1'' = None"
  by code_simp

lemma str_int_0: "str_int 0 = ''0''"
  by code_simp
lemma str_int_5: "str_int 5 = ''5''"
  by code_simp

text \<open>
  C7. With \<open>N\<close> options, a line that \<^verbatim>\<open>int\<close> parses to a \<open>k\<close> with \<open>1 \<le> k \<le> N\<close> ends the
  prompt, which returns \<open>k\<close> and leaves the later lines unread. Any other line is answered
  by the complaint, and the prompt goes on with the question and the next line. So the
  prompt returns the value of the first line that parses to a number in range, and raises
  \<^verbatim>\<open>EOFError\<close> when there is none. With four options and the lines \<^verbatim>\<open>0\<close>, \<^verbatim>\<open>5\<close>, \<^verbatim>\<open>2\<close> it
  complains twice and returns 2.
\<close>

theorem options_prompt_accepts_in_range:
  "(py_int line = Some k \<and> 1 \<le> k \<and> k \<le> int (length (ol_options self)) \<longrightarrow>
      OptionsList_prompt self (line # rest) out = (Inr k, rest, out @ ol_question self))
   \<and> (\<not> (\<exists>j. py_int line = Some j \<and> 1 \<le> j \<and> j \<le> int (length (ol_options self))) \<longrightarrow>
      (\<exists>shown. OptionsList_prompt self (line # rest) out
         = OptionsList_prompt self rest (out @ ol_question self @ [ol_complaint self shown])))
   \<and> fst (OptionsList_prompt self ins out) =
       (case List.map_filter
          (\<lambda>l. case py_int l of
                 None \<Rightarrow> None
               | Some k \<Rightarrow>
                   if 1 \<le> k \<and> k \<le> int (length (ol_options self)) then Some k else None)
          ins of
          [] \<Rightarrow> Inl EOFError
        | k # ks \<Rightarrow> Inr k)
   \<and> (length (ol_options self) = 4 \<longrightarrow>
        OptionsList_prompt self [''0'', ''5'', ''2''] out
          = (Inr 2, [],
             out @ ol_question self @ [ol_complaint self ''0'']
               @ ol_question self @ [ol_complaint self ''5''] @ ol_question self))"
proof (intro conjI impI)
  assume "py_int line = Some k \<and> 1 \<le> k \<and> k \<le> int (length (ol_options self))"
  then show "OptionsList_prompt self (line # rest) out = (Inr k, rest, out @ ol_question self)"
    by simp
next
  assume no: "\<not> (\<exists>j. py_int line = Some j \<and> 1 \<le> j \<and> j \<le> int (length (ol_options self)))"
  show "\<exists>shown. OptionsList_prompt self (line # rest) out
         = OptionsList_prompt self rest (out @ ol_question self @ [ol_complaint self shown])"
  proof (cases "py_int line")
    case None
    then show ?thesis by auto
  next
    case (Some j)
    with no have "j < 1 \<or> j > int (length (ol_options self))" by auto
    with Some show ?thesis by auto
  qed
next
  show "fst (OptionsList_prompt self ins out) =
       (case List.map_filter
          (\<lambda>l. case py_int l of
                 None \<Rightarrow> None
               | Some k \<Rightarrow>
                   if 1 \<le> k \<and> k \<le> int (length (ol_options self)) then Some k else None)
          ins of
          [] \<Rightarrow> Inl EOFError
        | k # ks \<Rightarrow> Inr k)"
    by (rule options_prompt_first_valid)
next
  assume "length (ol_options self) = 4"
  then show "OptionsList_prompt self [''0'', ''5'', ''2''] out
          = (Inr 2, [],
             out @ ol_question self @ [ol_complaint self ''0'']
               @ ol_question self @ [ol_complaint self ''5''] @ ol_question self)"
    by (simp add: py_int_0 py_int_5 py_int_2 str_int_0 str_int_5)
qed

theorem options_prompt_accepts_in_range_witness:
  "length (ol_options (OptionsList_init ''Pick one'' [''a'', ''b'', ''c'', ''d''] 0)) = 4
   \<and> py_int ''0'' = Some 0 \<and> py_int ''5'' = Some 5 \<and> py_int ''2'' = Some 2
   \<and> fst (OptionsList_prompt (OptionsList_init ''Pick one'' [''a'', ''b'', ''c'', ''d''] 0)
          [''0'', ''5'', ''2''] []) = Inr 2
   \<and> fst (snd (OptionsList_prompt (OptionsList_init ''Pick one'' [''a'', ''b'', ''c'', ''d''] 0)
          [''0'', ''5'', ''2''] [])) = []
   \<and> OptionsList_prompt (OptionsList_init ''Pick one'' [''a'', ''b'', ''c'', ''d''] 0)
          [''2'', ''1''] []
       = (Inr 2, [''1''],
          ol_question (OptionsList_init ''Pick one'' [''a'', ''b'', ''c'', ''d''] 0))
   \<and> (\<exists>shown.
        OptionsList_prompt (OptionsList_init ''Pick one'' [''a'', ''b'', ''c'', ''d''] 0)
          [''5'', ''1''] []
        = OptionsList_prompt (OptionsList_init ''Pick one'' [''a'', ''b'', ''c'', ''d''] 0)
            [''1'']
            (ol_question (OptionsList_init ''Pick one'' [''a'', ''b'', ''c'', ''d''] 0)
             @ [ol_complaint (OptionsList_init ''Pick one'' [''a'', ''b'', ''c'', ''d''] 0)
                  shown]))
   \<and> py_int [CHR 0x1F, CHR ''3''] = None
   \<and> fst (OptionsList_prompt (OptionsList_init ''Pick one'' [''a'', ''b'', ''c'', ''d''] 0)
          [[CHR 0x1F, CHR ''3''], ''2''] []) = Inr 2"
proof -
  let ?self = "OptionsList_init ''Pick one'' [''a'', ''b'', ''c'', ''d''] 0"
  have n: "length (ol_options ?self) = 4"
    by (simp add: OptionsList_init_def)
  have acc: "length (ol_options ?self) = 4
      \<and> fst (OptionsList_prompt ?self [''0'', ''5'', ''2''] []) = Inr 2
      \<and> fst (snd (OptionsList_prompt ?self [''0'', ''5'', ''2''] [])) = []
      \<and> OptionsList_prompt ?self [''2'', ''1''] [] = (Inr 2, [''1''], ol_question ?self)"
    using options_prompt_accepts_in_range [of "''2''" 2 ?self "[''1'']" "[]"] n py_int_2
    by simp
  have "\<not> (\<exists>j. py_int ''5'' = Some j \<and> 1 \<le> j \<and> j \<le> int (length (ol_options ?self)))"
    by (simp add: py_int_5 n)
  then have rej: "\<exists>shown. OptionsList_prompt ?self [''5'', ''1''] []
        = OptionsList_prompt ?self [''1''] (ol_question ?self @ [ol_complaint ?self shown])"
    using options_prompt_accepts_in_range [of "''5''" _ ?self "[''1'']" "[]"] by simp
  have sep: "fst (OptionsList_prompt ?self [[CHR 0x1F, CHR ''3''], ''2''] []) = Inr 2"
    using options_prompt_accepts_in_range [of _ _ ?self _ "[]" "[[CHR 0x1F, CHR ''3''], ''2'']"]
      n py_int_separator_before py_int_2
    by simp
  from acc rej sep py_int_0 py_int_5 py_int_2 py_int_separator_before show ?thesis by blast
qed

subsection \<open>Yes or no\<close>

lemma of_char_lower:
  "(of_char (lower_char c) :: nat) =
     (let n = of_char c in if 65 \<le> n \<and> n \<le> 90 then n + 32 else n)"
  by (simp add: lower_char_def Let_def)

lemma of_char_code_iff: "(of_char c :: nat) = of_char d \<longleftrightarrow> c = d"
  by (rule of_char_eq_iff)

lemma lower_char_y: "lower_char c = CHR ''y'' \<longleftrightarrow> c = CHR ''y'' \<or> c = CHR ''Y''"
proof -
  have "lower_char c = CHR ''y'' \<longleftrightarrow> (of_char (lower_char c) :: nat) = of_char (CHR ''y'')"
    by (simp only: of_char_code_iff)
  also have "\<dots> \<longleftrightarrow> (of_char c :: nat) = 121 \<or> (of_char c :: nat) = 89"
    unfolding of_char_lower Let_def by auto
  also have "\<dots> \<longleftrightarrow> (of_char c :: nat) = of_char (CHR ''y'') \<or> (of_char c :: nat) = of_char (CHR ''Y'')"
    by simp
  finally show ?thesis by (simp only: of_char_code_iff)
qed

lemma lower_char_n: "lower_char c = CHR ''n'' \<longleftrightarrow> c = CHR ''n'' \<or> c = CHR ''N''"
proof -
  have "lower_char c = CHR ''n'' \<longleftrightarrow> (of_char (lower_char c) :: nat) = of_char (CHR ''n'')"
    by (simp only: of_char_code_iff)
  also have "\<dots> \<longleftrightarrow> (of_char c :: nat) = 110 \<or> (of_char c :: nat) = 78"
    unfolding of_char_lower Let_def by auto
  also have "\<dots> \<longleftrightarrow> (of_char c :: nat) = of_char (CHR ''n'') \<or> (of_char c :: nat) = of_char (CHR ''N'')"
    by simp
  finally show ?thesis by (simp only: of_char_code_iff)
qed

lemma lower_y: "lower s = ''y'' \<longleftrightarrow> s = ''y'' \<or> s = ''Y''"
  by (cases s) (auto simp: lower_def lower_char_y)

lemma lower_n: "lower s = ''n'' \<longleftrightarrow> s = ''n'' \<or> s = ''N''"
  by (cases s) (auto simp: lower_def lower_char_n)

text \<open>
  C6. The line \<^verbatim>\<open>y\<close> or \<^verbatim>\<open>Y\<close> ends the prompt with \<^verbatim>\<open>True\<close>, the line \<^verbatim>\<open>n\<close> or \<^verbatim>\<open>N\<close>
  with \<^verbatim>\<open>False\<close>; any other line is answered by the complaint and the prompt text is
  written again for the next line. The constructor appends \<^verbatim>\<open>(y/n): \<close> to the prompt
  text when the text, with the whitespace at its end removed, does not end with
  \<^verbatim>\<open>(y/n):\<close>, and leaves the text as it is otherwise.
\<close>

theorem yes_no_prompt_answers:
  "(line = ''y'' \<or> line = ''Y'' \<longrightarrow>
      YesNoPrompt_prompt self (line # rest) out
        = (Inr True, rest, out @ [yn_indent self @ yn_prompt self]))
   \<and> (line = ''n'' \<or> line = ''N'' \<longrightarrow>
      YesNoPrompt_prompt self (line # rest) out
        = (Inr False, rest, out @ [yn_indent self @ yn_prompt self]))
   \<and> (line \<noteq> ''y'' \<and> line \<noteq> ''Y'' \<and> line \<noteq> ''n'' \<and> line \<noteq> ''N'' \<longrightarrow>
      YesNoPrompt_prompt self (line # rest) out
        = YesNoPrompt_prompt self rest
            (out @ [yn_indent self @ yn_prompt self, yn_complaint self (lower line)]))
   \<and> (\<not> endswith (rstrip p) ''(y/n):'' \<longrightarrow> yn_prompt (YesNoPrompt_init p i) = p @ ''(y/n): '')
   \<and> (endswith (rstrip p) ''(y/n):'' \<longrightarrow> yn_prompt (YesNoPrompt_init p i) = p)"
proof (intro conjI impI)
  assume "line = ''y'' \<or> line = ''Y''"
  then have "lower line = ''y''" by (simp only: lower_y)
  then show "YesNoPrompt_prompt self (line # rest) out
        = (Inr True, rest, out @ [yn_indent self @ yn_prompt self])"
    by simp
next
  assume "line = ''n'' \<or> line = ''N''"
  then have "lower line = ''n''" by (simp only: lower_n)
  then show "YesNoPrompt_prompt self (line # rest) out
        = (Inr False, rest, out @ [yn_indent self @ yn_prompt self])"
    by simp
next
  assume "line \<noteq> ''y'' \<and> line \<noteq> ''Y'' \<and> line \<noteq> ''n'' \<and> line \<noteq> ''N''"
  then have "lower line \<noteq> ''y''" and "lower line \<noteq> ''n''"
    by (simp_all only: lower_y lower_n) simp_all
  then show "YesNoPrompt_prompt self (line # rest) out
        = YesNoPrompt_prompt self rest
            (out @ [yn_indent self @ yn_prompt self, yn_complaint self (lower line)])"
    by simp
next
  assume "\<not> endswith (rstrip p) ''(y/n):''"
  then show "yn_prompt (YesNoPrompt_init p i) = p @ ''(y/n): ''"
    by (simp add: YesNoPrompt_init_def)
next
  assume "endswith (rstrip p) ''(y/n):''"
  then show "yn_prompt (YesNoPrompt_init p i) = p"
    by (simp add: YesNoPrompt_init_def)
qed

lemma demo_yes_no_prompt: "yn_prompt (YesNoPrompt_init ''Go on? '' 0) = ''Go on? (y/n): ''"
  by code_simp

theorem yes_no_prompt_answers_witness:
  "YesNoPrompt_prompt (YesNoPrompt_init ''Go on? '' 0) [''Y''] []
      = (Inr True, [], [''Go on? (y/n): ''])
   \<and> YesNoPrompt_prompt (YesNoPrompt_init ''Go on? '' 0) [''n''] []
      = (Inr False, [], [''Go on? (y/n): ''])
   \<and> YesNoPrompt_prompt (YesNoPrompt_init ''Go on? '' 0) [''maybe'', ''Y''] []
      = (Inr True, [],
         [''Go on? (y/n): '', yn_complaint (YesNoPrompt_init ''Go on? '' 0) ''maybe'',
          ''Go on? (y/n): ''])
   \<and> \<not> endswith (rstrip ''Go on? '') ''(y/n):''
   \<and> yn_prompt (YesNoPrompt_init ''Go on? '' 0) = ''Go on? (y/n): ''
   \<and> endswith (rstrip ''Q (y/n): '') ''(y/n):''
   \<and> yn_prompt (YesNoPrompt_init ''Q (y/n): '' 0) = ''Q (y/n): ''"
proof -
  let ?self = "YesNoPrompt_init ''Go on? '' 0"
  have i: "yn_indent ?self = []" by code_simp
  have l: "lower ''maybe'' = ''maybe''" by code_simp
  have e1: "\<not> endswith (rstrip ''Go on? '') ''(y/n):''" by code_simp
  have e2: "endswith (rstrip ''Q (y/n): '') ''(y/n):''" by code_simp
  have y: "YesNoPrompt_prompt ?self [''Y''] [] = (Inr True, [], [''Go on? (y/n): ''])"
    using yes_no_prompt_answers [of "''Y''" ?self "[]" "[]"] i demo_yes_no_prompt by simp
  have n: "YesNoPrompt_prompt ?self [''n''] [] = (Inr False, [], [''Go on? (y/n): ''])"
    using yes_no_prompt_answers [of "''n''" ?self "[]" "[]"] i demo_yes_no_prompt by simp
  have m: "YesNoPrompt_prompt ?self [''maybe'', ''Y''] []
      = (Inr True, [], [''Go on? (y/n): '', yn_complaint ?self ''maybe'', ''Go on? (y/n): ''])"
    using yes_no_prompt_answers [of "''maybe''" ?self "[''Y'']" "[]"]
      yes_no_prompt_answers [of "''Y''" ?self "[]"
        "[''Go on? (y/n): '', yn_complaint ?self ''maybe'']"]
      i l demo_yes_no_prompt by simp
  have p1: "yn_prompt (YesNoPrompt_init ''Go on? '' 0) = ''Go on? (y/n): ''"
    using yes_no_prompt_answers [of _ _ _ _ "''Go on? ''" 0] e1 by simp
  have p2: "yn_prompt (YesNoPrompt_init ''Q (y/n): '' 0) = ''Q (y/n): ''"
    using yes_no_prompt_answers [of _ _ _ _ "''Q (y/n): ''" 0] e2 by simp
  from y n m e1 p1 e2 p2 show ?thesis by blast
qed

text \<open>
  The condition is on the text without the whitespace at its end: a text that ends with
  \<^verbatim>\<open>(y/n): \<close>, and so not with \<^verbatim>\<open>(y/n):\<close>, gets no suffix.
\<close>

theorem yes_no_suffix_counterexample:
  "\<not> endswith ''Q (y/n): '' ''(y/n):''
   \<and> yn_prompt (YesNoPrompt_init ''Q (y/n): '' 0) = ''Q (y/n): ''
   \<and> yn_prompt (YesNoPrompt_init ''Q (y/n): '' 0) \<noteq> ''Q (y/n): '' @ ''(y/n): ''"
  by code_simp

subsection \<open>Bounded integer list\<close>

lemma str_int_3: "str_int 3 = ''3''"
  by code_simp




end
